theory Spec2Isabelle
  imports Main
begin

section \<open>Python values used by the GUI\<close>

text \<open>
  Python \<open>str\<close> is modelled by \<open>string\<close>; a character stands for a code point
  below 256. \<open>str(n)\<close> of an integer is its decimal representation.
\<close>

definition digit_char :: "nat \<Rightarrow> char" where
  "digit_char d = char_of (48 + d)"

fun str_nat :: "nat \<Rightarrow> string" where
  "str_nat n = (if n < 10 then [digit_char n] else str_nat (n div 10) @ [digit_char (n mod 10)])"

declare str_nat.simps [simp del]

definition str_int :: "int \<Rightarrow> string" where
  "str_int i = (if i < 0 then CHR ''-'' # str_nat (nat (- i)) else str_nat (nat i))"

text \<open>
  JSON values as \<open>json.loads\<close> returns them; Python \<open>None\<close> is \<open>JNull\<close>, a
  \<open>dict\<close> with string keys is an association list.
\<close>

datatype json =
    JNull
  | JBool bool
  | JNum int
  | JStr string
  | JArr "json list"
  | JObj "(string \<times> json) list"

text \<open>Truthiness, as \<open>x or y\<close> and \<open>if x\<close> test it.\<close>

fun truthy :: "json \<Rightarrow> bool" where
  "truthy JNull = False"
| "truthy (JBool b) = b"
| "truthy (JNum n) = (n \<noteq> 0)"
| "truthy (JStr s) = (s \<noteq> [])"
| "truthy (JArr xs) = (xs \<noteq> [])"
| "truthy (JObj kvs) = (kvs \<noteq> [])"

text \<open>
  Exceptions. \<open>except Exception\<close> catches every class derived from \<open>Exception\<close>;
  \<open>KeyboardInterrupt\<close> and \<open>SystemExit\<close> derive from \<open>BaseException\<close> only.
\<close>

datatype py_exc =
    URLError
  | HTTPError nat
  | SocketTimeout
  | ConnectionError
  | UnicodeDecodeError
  | JSONDecodeError
  | ValueError
  | AttributeError
  | OSError
  | TimeoutExpired
  | KeyboardInterrupt
  | SystemExit

fun is_Exception :: "py_exc \<Rightarrow> bool" where
  "is_Exception KeyboardInterrupt = False"
| "is_Exception SystemExit = False"
| "is_Exception _ = True"

section \<open>hub\_client.py: the HTTP client\<close>

record MCPHubClient =
  host :: string
  port :: int

definition base_url :: "MCPHubClient \<Rightarrow> string" where
  "base_url c = ''http://'' @ host c @ '':'' @ str_int (port c)"

datatype http_method = GET | POST

text \<open>
  A \<open>urllib.request.Request\<close>: the URL, the body bytes when there are any (here the
  JSON value that \<open>json.dumps\<close> serialises), the extra headers and the method.
\<close>

record request =
  req_url :: string
  req_data :: "json option"
  req_headers :: "(string \<times> string) list"
  req_method :: http_method
  req_timeout :: nat

text \<open>
  What the network does with one request: the exchange either raises while connecting,
  sending or reading, or a response arrives with a status code, the target of a
  redirect and a body. The target is there when the response has a \<open>Location\<close>
  header with a scheme that \<open>urllib\<close> follows; it is the URL that \<open>urllib\<close> resolves
  the header to.
  \<open>env_loads\<close> is \<open>json.loads(body.decode())\<close>: \<open>None\<close> stands for a body that
  is not valid UTF-8 encoded JSON (\<open>UnicodeDecodeError\<close> and \<open>JSONDecodeError\<close> are
  both \<open>ValueError\<close>s).
\<close>

datatype round_trip = Raises py_exc | Responds nat "string option" string

record http_env =
  env_round_trip :: "request \<Rightarrow> round_trip"
  env_loads :: "string \<Rightarrow> json option"

text \<open>
  \<open>urlopen\<close> follows redirects (\<open>HTTPRedirectHandler\<close> of CPython 3.11). A status
  301, 302, 303, 307 or 308 answering a GET, or 301, 302 or 303 answering a POST, is
  followed by a GET of the target, which keeps the headers but the content headers
  (compared in lower case) and carries no body.
\<close>

definition lower_char :: "char \<Rightarrow> char" where
  "lower_char c =
     (let n = (of_char c :: nat)
      in if (65 \<le> n \<and> n \<le> 90) \<or> (192 \<le> n \<and> n \<le> 222 \<and> n \<noteq> 215)
         then char_of (n + 32) else c)"

definition lower :: "string \<Rightarrow> string" where
  "lower s = map lower_char s"

definition redirect_request :: "request \<Rightarrow> nat \<Rightarrow> string \<Rightarrow> request option" where
  "redirect_request req code newurl =
     (if (code \<in> {301, 302, 303, 307, 308} \<and> req_method req = GET)
         \<or> (code \<in> {301, 302, 303} \<and> req_method req = POST)
      then Some \<lparr> req_url = newurl, req_data = None,
                  req_headers =
                    filter (\<lambda>(k, v). lower k \<notin> {''content-length'', ''content-type''})
                      (req_headers req),
                  req_method = GET, req_timeout = req_timeout req \<rparr>
      else None)"

text \<open>
  The loop detection of the handler: \<open>visited\<close> lists the targets followed so far. A
  target followed \<open>max_repeats\<close> times already, or a redirect when
  \<open>max_redirections\<close> different targets have been followed, is not followed any more.
\<close>

definition max_repeats :: nat where
  "max_repeats = 4"

definition max_redirections :: nat where
  "max_redirections = 10"

text \<open>
  \<open>urlopen_follow\<close> gives the last exchange of \<open>urlopen\<close>: the one that raised,
  the response with a status in 200..299, or the response that is not followed. Its
  first argument bounds the number of redirects followed; the loop detection stops
  before \<open>max_repeats * max_redirections\<close> of them.
\<close>

fun urlopen_follow :: "nat \<Rightarrow> http_env \<Rightarrow> string list \<Rightarrow> request \<Rightarrow> round_trip" where
  "urlopen_follow 0 env visited req = env_round_trip env req"
| "urlopen_follow (Suc n) env visited req =
     (case env_round_trip env req of
        Raises e \<Rightarrow> Raises e
      | Responds code target body \<Rightarrow>
          if 200 \<le> code \<and> code < 300 then Responds code target body
          else (case target of
                  None \<Rightarrow> Responds code target body
                | Some newurl \<Rightarrow>
                    (case redirect_request req code newurl of
                       None \<Rightarrow> Responds code target body
                     | Some new \<Rightarrow>
                         if max_repeats \<le> count_list visited newurl
                            \<or> max_redirections \<le> length (remdups visited)
                         then Responds code target body
                         else urlopen_follow n env (visited @ [newurl]) new)))"

definition final_exchange :: "http_env \<Rightarrow> request \<Rightarrow> round_trip" where
  "final_exchange env req = urlopen_follow (max_repeats * max_redirections) env [] req"

text \<open>
  \<open>urlopen(req).read()\<close>: the body of the last response when its status is in
  200..299, \<open>HTTPError\<close> for any other status, the exception of the exchange that
  raised.
\<close>

definition urlopen_read :: "http_env \<Rightarrow> request \<Rightarrow> py_exc + string" where
  "urlopen_read env req =
     (case final_exchange env req of
        Raises e \<Rightarrow> Inl e
      | Responds code target body \<Rightarrow>
          if 200 \<le> code \<and> code < 300 then Inr body else Inl (HTTPError code))"

definition json_loads :: "http_env \<Rightarrow> string \<Rightarrow> py_exc + json" where
  "json_loads env body =
     (case env_loads env body of None \<Rightarrow> Inl JSONDecodeError | Some v \<Rightarrow> Inr v)"

text \<open>
  The body of the \<open>try\<close> of \<open>_get\<close> and \<open>_post\<close>, and the handler
  \<open>except Exception: return None\<close> around it: an exception that is not an
  \<open>Exception\<close> propagates.
\<close>

definition open_and_load :: "http_env \<Rightarrow> request \<Rightarrow> py_exc + json" where
  "open_and_load env req =
     (case urlopen_read env req of
        Inl e \<Rightarrow> Inl e
      | Inr body \<Rightarrow> json_loads env body)"

definition except_Exception_return_None :: "py_exc + json \<Rightarrow> py_exc + json" where
  "except_Exception_return_None r =
     (case r of
        Inl e \<Rightarrow> if is_Exception e then Inr JNull else Inl e
      | Inr v \<Rightarrow> Inr v)"

text \<open>
  Every client method returns the requests it has sent with \<open>urlopen\<close>, in order
  (the GET that \<open>urlopen\<close> adds when it follows a redirect is not listed), and its
  outcome: \<open>Inl\<close> an exception that reaches the caller, \<open>Inr\<close> the returned value.
\<close>

type_synonym api_result = "request list \<times> (py_exc + json)"

definition get_request :: "MCPHubClient \<Rightarrow> string \<Rightarrow> nat \<Rightarrow> request" where
  "get_request c path timeout =
     \<lparr> req_url = base_url c @ path, req_data = None, req_headers = [],
       req_method = GET, req_timeout = timeout \<rparr>"

definition get' :: "http_env \<Rightarrow> MCPHubClient \<Rightarrow> string \<Rightarrow> nat \<Rightarrow> api_result" where
  "get' env c path timeout =
     (let req = get_request c path timeout
      in ([req], except_Exception_return_None (open_and_load env req)))"

definition body_or_empty :: "json option \<Rightarrow> json" where
  "body_or_empty body =
     (case body of None \<Rightarrow> JObj [] | Some b \<Rightarrow> if truthy b then b else JObj [])"

definition post_request :: "MCPHubClient \<Rightarrow> string \<Rightarrow> json option \<Rightarrow> string \<Rightarrow> nat \<Rightarrow> request" where
  "post_request c path body query timeout =
     \<lparr> req_url = base_url c @ path @ query,
       req_data = Some (body_or_empty body),
       req_headers = [(''Content-Type'', ''application/json'')],
       req_method = POST, req_timeout = timeout \<rparr>"

definition post' :: "http_env \<Rightarrow> MCPHubClient \<Rightarrow> string \<Rightarrow> json option \<Rightarrow> string \<Rightarrow> nat \<Rightarrow> api_result" where
  "post' env c path body query timeout =
     (let req = post_request c path body query timeout
      in ([req], except_Exception_return_None (open_and_load env req)))"

definition get_health :: "http_env \<Rightarrow> MCPHubClient \<Rightarrow> api_result" where
  "get_health env c = get' env c ''/api/health'' 5"

definition get_servers :: "http_env \<Rightarrow> MCPHubClient \<Rightarrow> api_result" where
  "get_servers env c = get' env c ''/api/servers'' 5"

definition start_server :: "http_env \<Rightarrow> MCPHubClient \<Rightarrow> string \<Rightarrow> api_result" where
  "start_server env c name =
     post' env c ''/api/servers/start'' (Some (JObj [(''server_name'', JStr name)])) '''' 10"

definition stop_server :: "http_env \<Rightarrow> MCPHubClient \<Rightarrow> string \<Rightarrow> bool \<Rightarrow> api_result" where
  "stop_server env c name disable =
     (let query = (if disable then ''?disable=true'' else '''')
      in post' env c ''/api/servers/stop'' (Some (JObj [(''server_name'', JStr name)])) query 10)"

definition refresh_server :: "http_env \<Rightarrow> MCPHubClient \<Rightarrow> string \<Rightarrow> api_result" where
  "refresh_server env c name =
     post' env c ''/api/servers/refresh'' (Some (JObj [(''server_name'', JStr name)])) '''' 10"

definition restart_hub :: "http_env \<Rightarrow> MCPHubClient \<Rightarrow> api_result" where
  "restart_hub env c = post' env c ''/api/restart'' None '''' 10"

text \<open>The six operations of the client, to quantify over them.\<close>

datatype api_call =
    GetHealth
  | GetServers
  | StartServer string
  | StopServer string bool
  | RefreshServer string
  | RestartHub

fun call :: "http_env \<Rightarrow> MCPHubClient \<Rightarrow> api_call \<Rightarrow> api_result" where
  "call env c GetHealth = get_health env c"
| "call env c GetServers = get_servers env c"
| "call env c (StartServer name) = start_server env c name"
| "call env c (StopServer name disable) = stop_server env c name disable"
| "call env c (RefreshServer name) = refresh_server env c name"
| "call env c RestartHub = restart_hub env c"

text \<open>
  The three failures of an operation, read on the last exchange of \<open>urlopen\<close>: a
  transport error (an \<open>Exception\<close> raised while connecting, sending or reading), a
  status outside 200..299, a body that is not JSON.
\<close>

definition transport_error :: "http_env \<Rightarrow> request \<Rightarrow> bool" where
  "transport_error env req =
     (case final_exchange env req of
        Raises e \<Rightarrow> is_Exception e
      | Responds code target body \<Rightarrow> False)"

definition non_2xx :: "http_env \<Rightarrow> request \<Rightarrow> bool" where
  "non_2xx env req =
     (case final_exchange env req of
        Raises e \<Rightarrow> False
      | Responds code target body \<Rightarrow> \<not> (200 \<le> code \<and> code < 300))"

definition invalid_json :: "http_env \<Rightarrow> request \<Rightarrow> bool" where
  "invalid_json env req =
     (case final_exchange env req of
        Raises e \<Rightarrow> False
      | Responds code target body \<Rightarrow> env_loads env body = None)"

definition round_trip_fails :: "http_env \<Rightarrow> request \<Rightarrow> bool" where
  "round_trip_fails env req =
     (transport_error env req \<or> non_2xx env req \<or> invalid_json env req)"

section \<open>logs\_tab.py: the log viewer\<close>

text \<open>
  \<open>datetime.now()\<close> is a reading of the wall clock (hour, minute, second), and
  \<open>strftime("%H:%M:%S")\<close> prints it with two digits per field.
\<close>

type_synonym datetime = "nat \<times> nat \<times> nat"

definition pad2 :: "nat \<Rightarrow> string" where
  "pad2 n = [digit_char (n div 10), digit_char (n mod 10)]"

fun strftime_HMS :: "datetime \<Rightarrow> string" where
  "strftime_HMS (h, m, s) = pad2 h @ '':'' @ pad2 m @ '':'' @ pad2 s"

text \<open>
  The state of a \<open>LogsTab\<close>: \<open>log_entries\<close> is the list of \<open>(level, text)\<close> pairs,
  \<open>log_text\<close> the content of the text box, \<open>level_filter\<close> the value selected in the
  option menu, \<open>debug_var\<close> the variable of the check box.
\<close>

record LogsTab =
  show_debug :: bool
  debug_var :: bool
  level_filter :: string
  log_entries :: "(string \<times> string) list"
  log_text :: string

definition LogsTab_init :: LogsTab where
  "LogsTab_init =
     \<lparr> show_debug = False, debug_var = False, level_filter = ''ALL'',
       log_entries = [], log_text = [] \<rparr>"

definition passes_filter :: "LogsTab \<Rightarrow> string \<Rightarrow> bool" where
  "passes_filter t level =
     (if level = ''DEBUG'' \<and> \<not> show_debug t then False
      else let selected = level_filter t
           in if selected \<noteq> ''ALL'' \<and> level \<noteq> selected then False
              else True)"

definition log_line :: "string \<Rightarrow> string \<Rightarrow> string \<Rightarrow> string" where
  "log_line ts level message = ''['' @ ts @ ''] ['' @ level @ ''] '' @ message @ [CHR 0x0A]"

definition write_line :: "string \<Rightarrow> string \<Rightarrow> string \<Rightarrow> LogsTab \<Rightarrow> LogsTab" where
  "write_line ts level message t = t\<lparr>log_text := log_text t @ log_line ts level message\<rparr>"

definition append_log :: "datetime \<Rightarrow> string \<Rightarrow> string \<Rightarrow> LogsTab \<Rightarrow> LogsTab" where
  "append_log now level message t =
     (let ts = strftime_HMS now;
          t1 = t\<lparr>log_entries := log_entries t @ [(level, message)]\<rparr>
      in if \<not> passes_filter t1 level then t1
         else write_line ts level message t1)"

text \<open>
  \<open>_redraw\<close> empties the text box and walks over \<open>log_entries\<close>; it reads the clock
  once for every entry that passes the filter. \<open>clock k\<close> is the \<open>k\<close>-th reading.
\<close>

fun redraw_entries :: "(nat \<Rightarrow> datetime) \<Rightarrow> nat \<Rightarrow> (string \<times> string) list \<Rightarrow> LogsTab \<Rightarrow> LogsTab" where
  "redraw_entries clock k [] t = t"
| "redraw_entries clock k ((level, msg) # rest) t =
     (if passes_filter t level
      then redraw_entries clock (Suc k) rest (write_line (strftime_HMS (clock k)) level msg t)
      else redraw_entries clock k rest t)"

definition redraw :: "(nat \<Rightarrow> datetime) \<Rightarrow> LogsTab \<Rightarrow> LogsTab" where
  "redraw clock t = redraw_entries clock 0 (log_entries t) (t\<lparr>log_text := []\<rparr>)"

definition on_debug_toggle :: "(nat \<Rightarrow> datetime) \<Rightarrow> LogsTab \<Rightarrow> LogsTab" where
  "on_debug_toggle clock t = redraw clock (t\<lparr>show_debug := debug_var t\<rparr>)"

definition on_filter_change :: "(nat \<Rightarrow> datetime) \<Rightarrow> string \<Rightarrow> LogsTab \<Rightarrow> LogsTab" where
  "on_filter_change clock v t = redraw clock t"

definition clear_logs :: "LogsTab \<Rightarrow> LogsTab" where
  "clear_logs t = t\<lparr>log_entries := [], log_text := []\<rparr>"

text \<open>
  \<open>_open_log_file\<close> probes two paths and hands the file to the desktop; what the file
  system and the desktop answer is its input.
\<close>

datatype open_outcome = FileMissing | Opened | OpenFailed string

fun open_log_file :: "datetime \<Rightarrow> open_outcome \<Rightarrow> LogsTab \<Rightarrow> LogsTab" where
  "open_log_file now FileMissing t = append_log now ''WARN'' ''Log file not found at expected paths'' t"
| "open_log_file now Opened t = t"
| "open_log_file now (OpenFailed e) t = append_log now ''ERROR'' (''Could not open log file: '' @ e) t"

text \<open>
  Everything that reaches a \<open>LogsTab\<close>: a call of \<open>append_log\<close>, a click on the
  check box (the widget flips \<open>debug_var\<close>, then calls the command), a choice in the
  option menu (the widget stores the value, then calls the command), and the two buttons.
\<close>

datatype logs_event =
    AppendLog string string
  | DebugToggle
  | FilterChange string
  | ClearLogs
  | OpenLogFile open_outcome

fun logs_step :: "(nat \<Rightarrow> datetime) \<Rightarrow> logs_event \<Rightarrow> LogsTab \<Rightarrow> LogsTab" where
  "logs_step clock (AppendLog level message) t = append_log (clock 0) level message t"
| "logs_step clock DebugToggle t = on_debug_toggle clock (t\<lparr>debug_var := \<not> debug_var t\<rparr>)"
| "logs_step clock (FilterChange v) t = on_filter_change clock v (t\<lparr>level_filter := v\<rparr>)"
| "logs_step clock ClearLogs t = clear_logs t"
| "logs_step clock (OpenLogFile outcome) t = open_log_file (clock 0) outcome t"

section \<open>servers\_tab.py: the server cards\<close>

text \<open>
  One entry of the roster, a \<open>dict\<close> read with \<open>get\<close>: a field is \<open>None\<close> when
  the key is missing.
\<close>

record server_data =
  sd_name :: "string option"
  sd_status :: "string option"
  sd_disabled :: "bool option"
  sd_tools :: "json list option"
  sd_resources :: "json list option"
  sd_prompts :: "json list option"
  sd_type :: "string option"
  sd_url :: "string option"

definition get_or :: "'a option \<Rightarrow> 'a \<Rightarrow> 'a" where
  "get_or field dflt = (case field of None \<Rightarrow> dflt | Some v \<Rightarrow> v)"

text \<open>
  \<open>ToolsList\<close>: the tools, the \<open>expanded\<close> flag and whether \<open>list_frame\<close> is packed.
\<close>

record ToolsList =
  tools :: "json list"
  expanded :: bool
  list_frame_packed :: bool

definition ToolsList_init :: "json list option \<Rightarrow> ToolsList" where
  "ToolsList_init ts = \<lparr> tools = get_or ts [], expanded = False, list_frame_packed = False \<rparr>"

definition toggle :: "ToolsList \<Rightarrow> ToolsList" where
  "toggle w =
     (let w1 = (if expanded w then w\<lparr>list_frame_packed := False\<rparr>
                else w\<lparr>list_frame_packed := True\<rparr>)
      in w1\<lparr>expanded := \<not> expanded w1\<rparr>)"

text \<open>
  \<open>ServerCard\<close>: \<open>card_id\<close> is the identity of the widget; the other fields are the
  attributes set by \<open>__init__\<close> and the content made by \<open>_build\<close> (the text of the
  badge before \<open>upper()\<close>, its colour, the transport and the two counts of the info
  row, the switch variable, the tools list).
\<close>

record ServerCard =
  card_id :: nat
  card_data :: server_data
  server_name :: string
  display_status :: string
  badge_color :: string
  transport :: string
  n_resources :: nat
  n_prompts :: nat
  enabled_var :: bool
  tools_list :: ToolsList

definition color_map :: "string \<Rightarrow> string option" where
  "color_map =
     map_of [(''connected'', ''#2ecc71''), (''connecting'', ''orange''),
             (''disconnected'', ''gray''), (''disabled'', ''#e74c3c''), (''error'', ''#e74c3c'')]"

definition build :: "server_data \<Rightarrow> ServerCard \<Rightarrow> ServerCard" where
  "build data crd =
     (let status = get_or (sd_status data) ''unknown'';
          disabled = get_or (sd_disabled data) False;
          tls = get_or (sd_tools data) [];
          resources = get_or (sd_resources data) [];
          prompts = get_or (sd_prompts data) [];
          dstatus = (if disabled then ''disabled'' else status)
      in crd\<lparr> display_status := dstatus,
               badge_color := get_or (color_map dstatus) ''gray'',
               enabled_var := \<not> disabled,
               transport :=
                 (case sd_type data of
                    Some t \<Rightarrow> if t \<noteq> [] then t
                              else (if get_or (sd_url data) [] \<noteq> [] then ''remote'' else ''stdio'')
                  | None \<Rightarrow> (if get_or (sd_url data) [] \<noteq> [] then ''remote'' else ''stdio'')),
               n_resources := length resources,
               n_prompts := length prompts,
               tools_list := ToolsList_init (Some tls) \<rparr>)"

definition ServerCard_init :: "nat \<Rightarrow> server_data \<Rightarrow> ServerCard" where
  "ServerCard_init wid data =
     build data
       \<lparr> card_id = wid, card_data = data, server_name = get_or (sd_name data) ''unknown'',
         display_status = [], badge_color = [], transport = [], n_resources = 0,
         n_prompts = 0, enabled_var = False, tools_list = ToolsList_init None \<rparr>"

definition update_data :: "server_data \<Rightarrow> ServerCard \<Rightarrow> ServerCard" where
  "update_data data crd = build data (crd\<lparr>card_data := data\<rparr>)"

text \<open>
  \<open>ServersTab\<close>: the \<open>cards\<close> dictionary in insertion order, keyed by
  \<open>sdata.get("name")\<close>; whether the empty-state label is shown; the next fresh
  widget identity.
\<close>

type_synonym card_dict = "(string option \<times> ServerCard) list"

record ServersTab =
  cards :: card_dict
  empty_label_mapped :: bool
  next_widget :: nat

definition ServersTab_init :: ServersTab where
  "ServersTab_init = \<lparr> cards = [], empty_label_mapped = True, next_widget = 0 \<rparr>"

text \<open>\<open>d[k] = v\<close>: an existing key keeps its place, a new key goes last.\<close>

fun dict_set :: "'k \<Rightarrow> 'v \<Rightarrow> ('k \<times> 'v) list \<Rightarrow> ('k \<times> 'v) list" where
  "dict_set k v [] = [(k, v)]"
| "dict_set k v ((k', v') # rest) =
     (if k' = k then (k, v) # rest else (k', v') # dict_set k v rest)"

text \<open>What \<open>refresh\<close> does to card widgets, in order.\<close>

datatype card_op =
    CreateCard "string option" nat
  | DestroyCard "string option" nat
  | UpdateCard "string option" nat

fun is_update :: "card_op \<Rightarrow> bool" where
  "is_update (UpdateCard k i) = True"
| "is_update _ = False"

text \<open>The second loop of \<open>refresh\<close>, over the roster.\<close>

fun add_or_update :: "server_data list \<Rightarrow> ServersTab \<times> card_op list \<Rightarrow> ServersTab \<times> card_op list" where
  "add_or_update [] (t, ops) = (t, ops)"
| "add_or_update (sdata # rest) (t, ops) =
     (let name = sd_name sdata
      in case map_of (cards t) name of
           Some crd \<Rightarrow>
             add_or_update rest
               (t\<lparr>cards := dict_set name (update_data sdata crd) (cards t)\<rparr>,
                ops @ [UpdateCard name (card_id crd)])
         | None \<Rightarrow>
             (let crd = ServerCard_init (next_widget t) sdata
              in add_or_update rest
                   (t\<lparr>cards := dict_set name crd (cards t),
                      next_widget := Suc (next_widget t)\<rparr>,
                    ops @ [CreateCard name (card_id crd)])))"

text \<open>
  \<open>refresh\<close>. The first loop pops and destroys the cards whose key is not a name of
  the roster; Python walks the set difference in no specified order, here in the order
  of the dictionary.
\<close>

definition refresh :: "server_data list \<Rightarrow> ServersTab \<Rightarrow> ServersTab \<times> card_op list" where
  "refresh servers_list t =
     (let current_names = map sd_name servers_list;
          gone = filter (\<lambda>(k, c). k \<notin> set current_names) (cards t);
          t1 = t\<lparr>cards := filter (\<lambda>(k, c). k \<in> set current_names) (cards t)\<rparr>;
          ops1 = map (\<lambda>(k, c). DestroyCard k (card_id c)) gone
      in if servers_list \<noteq> []
         then add_or_update servers_list (t1\<lparr>empty_label_mapped := False\<rparr>, ops1)
         else (t1\<lparr>empty_label_mapped := True\<rparr>, ops1))"

text \<open>A click on the tools button of the card with key \<open>k\<close>.\<close>

definition toggle_tools :: "string option \<Rightarrow> ServersTab \<Rightarrow> ServersTab" where
  "toggle_tools k t =
     (case map_of (cards t) k of
        None \<Rightarrow> t
      | Some crd \<Rightarrow>
          t\<lparr>cards := dict_set k (crd\<lparr>tools_list := toggle (tools_list crd)\<rparr>) (cards t)\<rparr>)"

section \<open>app.py: the main window\<close>

subsection \<open>Reading the port\<close>

text \<open>
  \<open>str.strip()\<close> removes the white space of both ends; below 256 the white-space
  code points are 9 to 13, 28 to 32, 133 and 160.
\<close>

definition isspace :: "char \<Rightarrow> bool" where
  "isspace c =
     (let n = (of_char c :: nat)
      in (9 \<le> n \<and> n \<le> 13) \<or> (28 \<le> n \<and> n \<le> 32) \<or> n = 133 \<or> n = 160)"

definition strip :: "string \<Rightarrow> string" where
  "strip s = rev (dropWhile isspace (rev (dropWhile isspace s)))"

text \<open>
  \<open>int(s)\<close> for a \<open>str\<close> in base 10, as CPython reads it: white space around the
  number is skipped, one sign may lead, then come decimal digits, where single
  underscores may stand between two digits. Anything else raises \<open>ValueError\<close>
  (\<open>None\<close> here), and so does a number of more than 4300 digits (the default limit of
  CPython 3.11 and of the later releases of the older versions).
\<close>

definition digit_val :: "char \<Rightarrow> nat option" where
  "digit_val c =
     (let n = (of_char c :: nat) in if 48 \<le> n \<and> n \<le> 57 then Some (n - 48) else None)"

fun digits_value :: "nat \<Rightarrow> string \<Rightarrow> nat option" where
  "digits_value acc [] = Some acc"
| "digits_value acc [c] =
     (case digit_val c of None \<Rightarrow> None | Some v \<Rightarrow> Some (10 * acc + v))"
| "digits_value acc (c # d # ds) =
     (if c = CHR ''_''
      then (case digit_val d of None \<Rightarrow> None | Some v \<Rightarrow> digits_value (10 * acc + v) ds)
      else (case digit_val c of None \<Rightarrow> None | Some v \<Rightarrow> digits_value (10 * acc + v) (d # ds)))"

definition unsigned_value :: "string \<Rightarrow> nat option" where
  "unsigned_value s =
     (case s of
        [] \<Rightarrow> None
      | c # cs \<Rightarrow> (case digit_val c of None \<Rightarrow> None | Some v \<Rightarrow> digits_value v cs))"

definition int_max_str_digits :: nat where
  "int_max_str_digits = 4300"

definition py_int :: "string \<Rightarrow> int option" where
  "py_int s =
     (let s1 = strip s;
          neg = (s1 \<noteq> [] \<and> hd s1 = CHR ''-'');
          signed = (s1 \<noteq> [] \<and> (hd s1 = CHR ''-'' \<or> hd s1 = CHR ''+''));
          body = (if signed then tl s1 else s1)
      in if length (filter (\<lambda>c. digit_val c \<noteq> None) body) > int_max_str_digits then None
         else (case unsigned_value body of
                 None \<Rightarrow> None
               | Some n \<Rightarrow> Some (if neg then - int n else int n)))"

definition DEFAULT_PORT :: int where
  "DEFAULT_PORT = 3000"

definition read_port :: "string \<Rightarrow> int" where
  "read_port entry =
     (case py_int (strip entry) of
        Some val \<Rightarrow> if 1 \<le> val \<and> val \<le> 65535 then val else DEFAULT_PORT
      | None \<Rightarrow> DEFAULT_PORT)"

subsection \<open>The window and its sequential methods\<close>

datatype btn_state = Normal | Disabled

text \<open>
  The attributes of \<open>MCPHubApp\<close>. \<open>hub_process\<close> holds the \<open>Popen\<close> object, named
  by a number; \<open>app_port\<close> is \<open>self.port\<close>; \<open>port_entry\<close> is the text of the entry;
  \<open>status_label\<close> is the text and the colour of the label.
\<close>

record MCPHubApp =
  hub_process :: "nat option"
  hub_running :: bool
  app_port :: int
  config_path :: string
  client :: MCPHubClient
  port_entry :: string
  start_btn_state :: btn_state
  start_btn_text :: string
  status_label :: "string \<times> string"
  logs_tab :: LogsTab
  servers_tab :: ServersTab

definition MCPHubApp_init :: "string \<Rightarrow> MCPHubApp" where
  "MCPHubApp_init cfg =
     \<lparr> hub_process = None, hub_running = False, app_port = DEFAULT_PORT, config_path = cfg,
       client = \<lparr> host = ''127.0.0.1'', port = DEFAULT_PORT \<rparr>,
       port_entry = str_int DEFAULT_PORT,
       start_btn_state = Normal, start_btn_text = ''Start Hub'',
       status_label = (''Stopped'', ''gray''),
       logs_tab = LogsTab_init, servers_tab = ServersTab_init \<rparr>"

text \<open>
  What a method hands to the toolkit and to the threading library: a thread to start
  (the closure \<open>run\<close> of \<open>_start_hub\<close> or \<open>fetch\<close> of \<open>_poll_health\<close>), or a
  callback for \<open>self.after(ms, f)\<close>.
\<close>

datatype thread_target = RunHub | Fetch

datatype ui_update =
    ConfigureStartBtn btn_state string
  | ConfigureStatus string string
  | LogAppend string string
  | LogErrorStrE

datatype callback =
    PollHealth
  | RefreshServers json
  | Update ui_update

datatype effect = StartThread thread_target | After nat callback

definition start_hub :: "datetime \<Rightarrow> MCPHubApp \<Rightarrow> MCPHubApp \<times> effect list" where
  "start_hub now a =
     (let p = read_port (port_entry a);
          a1 = a\<lparr> app_port := p, client := (client a)\<lparr>port := p\<rparr> \<rparr>;
          a2 = a1\<lparr> status_label := (''Starting...'', ''orange''), start_btn_state := Disabled \<rparr>;
          a3 = a2\<lparr> logs_tab :=
                   append_log now ''INFO''
                     (''Starting MCP Hub on port '' @ str_int (app_port a2) @ ''...'')
                     (logs_tab a2) \<rparr>
      in (a3, [StartThread RunHub]))"

text \<open>The command line that \<open>run\<close> builds; \<open>cli_path\<close> is the path of \<open>cli.js\<close>.\<close>

definition hub_command :: "string \<Rightarrow> MCPHubApp \<Rightarrow> string list" where
  "hub_command cli_path a =
     [''node'', cli_path, ''--port'', str_int (app_port a), ''--config'', config_path a, ''--watch'']"

text \<open>
  What the hub process does when \<open>_stop_hub\<close> or \<open>destroy\<close> act on its handle:
  each of \<open>terminate()\<close>, \<open>wait(timeout)\<close> and \<open>kill()\<close> returns or raises
  (\<open>wait\<close> raises \<open>TimeoutExpired\<close> when the process has not exited in time).
\<close>

record proc_behaviour =
  terminate_raises :: "py_exc option"
  wait_raises :: "py_exc option"
  kill_raises :: "py_exc option"

datatype proc_call = Terminate nat | Wait nat nat | Kill nat

text \<open>
  The \<open>try\<close> block \<open>terminate(); wait(timeout)\<close>: the calls made on the handle and
  the exception that left the block, if any.
\<close>

definition terminate_and_wait :: "proc_behaviour \<Rightarrow> nat \<Rightarrow> nat \<Rightarrow> proc_call list \<times> py_exc option" where
  "terminate_and_wait pb h timeout =
     (case terminate_raises pb of
        Some e \<Rightarrow> ([Terminate h], Some e)
      | None \<Rightarrow> ([Terminate h, Wait h timeout], wait_raises pb))"

definition stop_finish :: "MCPHubApp \<Rightarrow> MCPHubApp" where
  "stop_finish a =
     a\<lparr> hub_running := False, start_btn_text := ''Start Hub'',
        status_label := (''Stopped'', ''gray'') \<rparr>"

text \<open>
  \<open>_stop_hub\<close> returns the window, the calls made on the handle, and the exception
  that leaves the method, if any. An exception leaves the attributes as they are at
  the statement that raised.
\<close>

definition stop_hub :: "datetime \<Rightarrow> proc_behaviour \<Rightarrow> MCPHubApp \<Rightarrow> MCPHubApp \<times> proc_call list \<times> py_exc option" where
  "stop_hub now pb a =
     (let a1 = a\<lparr>logs_tab := append_log now ''INFO'' ''Stopping MCP Hub...'' (logs_tab a)\<rparr>
      in case hub_process a1 of
           None \<Rightarrow> (stop_finish a1, [], None)
         | Some h \<Rightarrow>
             (case terminate_and_wait pb h 5 of
                (calls, None) \<Rightarrow> (stop_finish (a1\<lparr>hub_process := None\<rparr>), calls, None)
              | (calls, Some e) \<Rightarrow>
                  if is_Exception e
                  then (case kill_raises pb of
                          None \<Rightarrow> (stop_finish (a1\<lparr>hub_process := None\<rparr>), calls @ [Kill h], None)
                        | Some e' \<Rightarrow> (a1, calls @ [Kill h], Some e'))
                  else (a1, calls, Some e)))"

text \<open>
  \<open>destroy\<close>, up to the call of the toolkit's own \<open>destroy\<close>: the calls made on the
  handle and the exception that leaves the method, if any.
\<close>

definition destroy :: "proc_behaviour \<Rightarrow> MCPHubApp \<Rightarrow> proc_call list \<times> py_exc option" where
  "destroy pb a =
     (case hub_process a of
        None \<Rightarrow> ([], None)
      | Some h \<Rightarrow>
          (case terminate_and_wait pb h 3 of
             (calls, None) \<Rightarrow> (calls, None)
           | (calls, Some e) \<Rightarrow>
               if is_Exception e
               then (case kill_raises pb of
                       None \<Rightarrow> (calls @ [Kill h], None)
                     | Some e' \<Rightarrow> (calls @ [Kill h], if is_Exception e' then None else Some e'))
               else (calls, Some e)))"

text \<open>
  \<open>_toggle_hub\<close>: the window, the effects, the calls made on the handle and the
  exception that leaves the method, if any.
\<close>

definition toggle_hub :: "datetime \<Rightarrow> proc_behaviour \<Rightarrow> MCPHubApp \<Rightarrow> MCPHubApp \<times> effect list \<times> proc_call list \<times> py_exc option" where
  "toggle_hub now pb a =
     (if hub_running a
      then (case stop_hub now pb a of (a', calls, exc) \<Rightarrow> (a', [], calls, exc))
      else (case start_hub now a of (a', effs) \<Rightarrow> (a', effs, [], None)))"

text \<open>
  \<open>_poll_health\<close> changes no attribute; it returns its effects, in order. The thread
  \<open>fetch\<close> returns the requests it sends and the callback it schedules.
\<close>

definition poll_health :: "MCPHubApp \<Rightarrow> effect list" where
  "poll_health a =
     (if hub_running a then [StartThread Fetch] else []) @ [After 3000 PollHealth]"

definition fetch :: "http_env \<Rightarrow> MCPHubApp \<Rightarrow> request list \<times> effect list" where
  "fetch env a =
     (case get_health env (client a) of
        (reqs, Inr data) \<Rightarrow> (reqs, if truthy data then [After 0 (RefreshServers data)] else [])
      | (reqs, Inl e) \<Rightarrow> (reqs, []))"

subsection \<open>The hub life cycle with its worker threads\<close>

text \<open>
  The closure \<open>run\<close> of \<open>_start_hub\<close> runs in a thread of its own. Its pieces,
  between the calls that block (\<open>Popen\<close>, \<open>readline\<close>, \<open>wait\<close>): each changes
  attributes of the window and queues updates of the widgets with \<open>self.after(0, f)\<close>.
  The third callback of the \<open>except\<close> branch is \<open>append_log("ERROR", str(e))\<close>: the
  main loop runs it when the handler has ended and has unbound \<open>e\<close>, so it raises
  \<open>NameError\<close> and writes nothing (\<open>LogErrorStrE\<close>).
\<close>

definition run_spawned :: "nat \<Rightarrow> MCPHubApp \<Rightarrow> MCPHubApp \<times> ui_update list" where
  "run_spawned pid a =
     (a\<lparr>hub_process := Some pid, hub_running := True\<rparr>,
      [ConfigureStartBtn Normal ''Stop Hub'', ConfigureStatus ''Running'' ''#2ecc71'',
       LogAppend ''INFO'' ''Hub process started''])"

definition run_line :: "string \<Rightarrow> ui_update list" where
  "run_line text = (if text \<noteq> [] then [LogAppend ''HUB'' text] else [])"

definition run_exited :: "MCPHubApp \<Rightarrow> MCPHubApp \<times> ui_update list" where
  "run_exited a =
     (a\<lparr>hub_running := False\<rparr>,
      [ConfigureStartBtn Normal ''Start Hub'', ConfigureStatus ''Stopped'' ''gray'',
       LogAppend ''INFO'' ''Hub process exited''])"

definition run_except :: "MCPHubApp \<Rightarrow> MCPHubApp \<times> ui_update list" where
  "run_except a =
     (a\<lparr>hub_running := False\<rparr>,
      [ConfigureStartBtn Normal ''Start Hub'', ConfigureStatus ''Error'' ''red'',
       LogErrorStrE])"

fun apply_update :: "datetime \<Rightarrow> ui_update \<Rightarrow> MCPHubApp \<Rightarrow> MCPHubApp" where
  "apply_update now (ConfigureStartBtn st txt) a = a\<lparr>start_btn_state := st, start_btn_text := txt\<rparr>"
| "apply_update now (ConfigureStatus txt colour) a = a\<lparr>status_label := (txt, colour)\<rparr>"
| "apply_update now (LogAppend level msg) a = a\<lparr>logs_tab := append_log now level msg (logs_tab a)\<rparr>"
| "apply_update now LogErrorStrE a = a"

text \<open>
  Where a worker thread stands in \<open>run\<close>: before \<open>Popen\<close>; in the loop over the
  output of the process it spawned; at \<open>self.hub_process.wait()\<close>; done.
\<close>

datatype worker_pc = AtPopen | Streaming nat | AtWait | Finished

text \<open>
  The window together with what runs beside its interaction thread: the queue of
  \<open>after(0, f)\<close> callbacks, the worker threads (a thread is named by its position),
  the hub processes that are alive, and the next fresh process number.
\<close>

record hub_system =
  window :: MCPHubApp
  pending :: "ui_update list"
  workers :: "worker_pc list"
  live :: "nat list"
  next_pid :: nat

definition hub_system_init :: "string \<Rightarrow> hub_system" where
  "hub_system_init cfg =
     \<lparr> window = MCPHubApp_init cfg, pending = [], workers = [], live = [], next_pid = 0 \<rparr>"

text \<open>
  One step of the system: a click on the toolbar button (a disabled button ignores
  it), the main loop running the first queued callback, a worker thread running its
  next piece, or a process exiting by itself. \<open>None\<close>: the step cannot happen in
  this state. \<open>readline\<close> returns the empty line only when the process whose output
  is read is gone, and \<open>wait()\<close> returns only when the process of the handle that
  \<open>self.hub_process\<close> holds at that moment is gone.
\<close>

datatype sys_event =
    Click datetime proc_behaviour
  | RunCallback datetime
  | WorkerPopen nat "py_exc option"
  | WorkerLine nat string
  | WorkerEOF nat
  | WorkerWait nat
  | ProcessExit nat

fun is_kill :: "proc_call \<Rightarrow> bool" where
  "is_kill (Kill h) = True"
| "is_kill _ = False"

text \<open>The process is gone after a stop when it was terminated and waited for, or killed.\<close>

definition process_stopped :: "proc_behaviour \<Rightarrow> proc_call list \<Rightarrow> bool" where
  "process_stopped pb calls =
     (calls \<noteq> [] \<and>
      ((terminate_raises pb = None \<and> wait_raises pb = None) \<or>
       (kill_raises pb = None \<and> list_ex is_kill calls)))"

definition click :: "datetime \<Rightarrow> proc_behaviour \<Rightarrow> hub_system \<Rightarrow> hub_system" where
  "click now pb s =
     (if start_btn_state (window s) = Disabled then s
      else (case toggle_hub now pb (window s) of
              (a', effs, calls, exc) \<Rightarrow>
                s\<lparr> window := a',
                   workers := workers s @ map (\<lambda>e. AtPopen) (filter (\<lambda>e. e = StartThread RunHub) effs),
                   live := (case hub_process (window s) of
                              None \<Rightarrow> live s
                            | Some h \<Rightarrow> if process_stopped pb calls then removeAll h (live s)
                                        else live s) \<rparr>))"

definition worker_popen :: "nat \<Rightarrow> py_exc option \<Rightarrow> hub_system \<Rightarrow> hub_system option" where
  "worker_popen i outcome s =
     (if i < length (workers s) \<and> workers s ! i = AtPopen
      then (case outcome of
              None \<Rightarrow>
                (case run_spawned (next_pid s) (window s) of
                   (a', ups) \<Rightarrow>
                     Some (s\<lparr> window := a', pending := pending s @ ups,
                              workers := (workers s)[i := Streaming (next_pid s)],
                              live := live s @ [next_pid s],
                              next_pid := Suc (next_pid s) \<rparr>))
            | Some e \<Rightarrow>
                if is_Exception e
                then (case run_except (window s) of
                        (a', ups) \<Rightarrow>
                          Some (s\<lparr> window := a', pending := pending s @ ups,
                                   workers := (workers s)[i := Finished] \<rparr>))
                else Some (s\<lparr>workers := (workers s)[i := Finished]\<rparr>))
      else None)"

definition worker_line :: "nat \<Rightarrow> string \<Rightarrow> hub_system \<Rightarrow> hub_system option" where
  "worker_line i text s =
     (if i < length (workers s)
      then (case workers s ! i of
              Streaming p \<Rightarrow> Some (s\<lparr>pending := pending s @ run_line text\<rparr>)
            | _ \<Rightarrow> None)
      else None)"

definition worker_eof :: "nat \<Rightarrow> hub_system \<Rightarrow> hub_system option" where
  "worker_eof i s =
     (if i < length (workers s)
      then (case workers s ! i of
              Streaming p \<Rightarrow>
                if p \<in> set (live s) then None
                else Some (s\<lparr>workers := (workers s)[i := AtWait]\<rparr>)
            | _ \<Rightarrow> None)
      else None)"

definition worker_wait :: "nat \<Rightarrow> hub_system \<Rightarrow> hub_system option" where
  "worker_wait i s =
     (if i < length (workers s) \<and> workers s ! i = AtWait
      then (case hub_process (window s) of
              None \<Rightarrow>
                (case run_except (window s) of
                   (a', ups) \<Rightarrow>
                     Some (s\<lparr> window := a', pending := pending s @ ups,
                              workers := (workers s)[i := Finished] \<rparr>))
            | Some h \<Rightarrow>
                if h \<in> set (live s) then None
                else (case run_exited (window s) of
                        (a', ups) \<Rightarrow>
                          Some (s\<lparr> window := a', pending := pending s @ ups,
                                   workers := (workers s)[i := Finished] \<rparr>)))
      else None)"

fun sys_step :: "sys_event \<Rightarrow> hub_system \<Rightarrow> hub_system option" where
  "sys_step (Click now pb) s = Some (click now pb s)"
| "sys_step (RunCallback now) s =
     (case pending s of
        [] \<Rightarrow> None
      | u # us \<Rightarrow> Some (s\<lparr>window := apply_update now u (window s), pending := us\<rparr>))"
| "sys_step (WorkerPopen i outcome) s = worker_popen i outcome s"
| "sys_step (WorkerLine i text) s = worker_line i text s"
| "sys_step (WorkerEOF i) s = worker_eof i s"
| "sys_step (WorkerWait i) s = worker_wait i s"
| "sys_step (ProcessExit p) s =
     (if p \<in> set (live s) then Some (s\<lparr>live := removeAll p (live s)\<rparr>) else None)"

fun run_events :: "sys_event list \<Rightarrow> hub_system \<Rightarrow> hub_system option" where
  "run_events [] s = Some s"
| "run_events (e # es) s =
     (case sys_step e s of None \<Rightarrow> None | Some s' \<Rightarrow> run_events es s')"


section \<open>Concrete inputs\<close>

text \<open>
  Three hubs: one answers every request with status 500, one refuses the connection,
  one answers with status 200 and a page that is not JSON. And the default client.
\<close>

definition env500 :: http_env where
  "env500 = \<lparr> env_round_trip = (\<lambda>r. Responds 500 None ''Internal Server Error''),
              env_loads = (\<lambda>b. None) \<rparr>"

definition env_refused :: http_env where
  "env_refused = \<lparr> env_round_trip = (\<lambda>r. Raises URLError), env_loads = (\<lambda>b. None) \<rparr>"

definition env_html :: http_env where
  "env_html = \<lparr> env_round_trip = (\<lambda>r. Responds 200 None ''<html></html>''),
               env_loads = (\<lambda>b. None) \<rparr>"

text \<open>
  A hub that answers every POST with status 302 and the location of a page, and every
  GET with status 200 and the JSON text \<open>[1]\<close>.
\<close>

definition env_redirect :: http_env where
  "env_redirect =
     \<lparr> env_round_trip =
         (\<lambda>r. if req_method r = POST
               then Responds 302 (Some ''http://127.0.0.1:3000/api/health'') []
               else Responds 200 None ''[1]''),
       env_loads = (\<lambda>b. if b = ''[1]'' then Some (JArr [JNum 1]) else None) \<rparr>"

definition client0 :: MCPHubClient where
  "client0 = \<lparr> host = ''127.0.0.1'', port = 3000 \<rparr>"

text \<open>
  Two roster entries, the first one again once it is disabled, and a tab that shows
  both with the tools of the first expanded.
\<close>

definition fs_data :: server_data where
  "fs_data =
     \<lparr> sd_name = Some ''fs'', sd_status = Some ''connected'', sd_disabled = Some False,
       sd_tools = Some [JObj [(''name'', JStr ''read_file'')]], sd_resources = None,
       sd_prompts = None, sd_type = None, sd_url = None \<rparr>"

definition gh_data :: server_data where
  "gh_data =
     \<lparr> sd_name = Some ''gh'', sd_status = Some ''connecting'', sd_disabled = None,
       sd_tools = None, sd_resources = None, sd_prompts = None, sd_type = None,
       sd_url = Some ''http://localhost:9000/mcp'' \<rparr>"


definition tab_fs_expanded :: ServersTab where
  "tab_fs_expanded = toggle_tools (Some ''fs'') (fst (refresh [fs_data, gh_data] ServersTab_init))"

text \<open>
  The window as \<open>__init__\<close> leaves it; a process that obeys every call, and one for
  which both \<open>terminate()\<close> and \<open>kill()\<close> raise \<open>OSError\<close>.
\<close>

definition app0 :: MCPHubApp where
  "app0 = MCPHubApp_init ''mcp-servers.json''"

definition pb_ok :: proc_behaviour where
  "pb_ok = \<lparr> terminate_raises = None, wait_raises = None, kill_raises = None \<rparr>"

definition pb_signal_fails :: proc_behaviour where
  "pb_signal_fails =
     \<lparr> terminate_raises = Some OSError, wait_raises = None, kill_raises = Some OSError \<rparr>"

text \<open>
  A schedule of the hub life cycle: start, stop, start again; the worker of the first
  process reaches \<open>self.hub_process.wait()\<close> only now, while the second worker has not
  called \<open>Popen\<close> yet; the button it re-enables is clicked; both pending workers spawn.
\<close>

definition race_trace :: "sys_event list" where
  "race_trace =
     [Click (10, 0, 0) pb_ok, WorkerPopen 0 None,
      RunCallback (10, 0, 1), RunCallback (10, 0, 1), RunCallback (10, 0, 1),
      Click (10, 0, 5) pb_ok,
      Click (10, 0, 6) pb_ok,
      WorkerEOF 0, WorkerWait 0, RunCallback (10, 0, 6),
      Click (10, 0, 6) pb_ok,
      WorkerPopen 1 None, WorkerPopen 2 None]"

section \<open>Properties of the client\<close>

subsection \<open>Following redirects\<close>

lemma length_le_repeats:
  assumes "\<forall>u. count_list v u \<le> k"
  shows "length v \<le> k * length (remdups v)"
proof -
  have "length v = sum (count_list v) (set v)"
    by (simp add: sum_count_set)
  also have "\<dots> \<le> (\<Sum>u\<in>set v. k)"
    using assms by (intro sum_mono) simp
  also have "\<dots> = k * card (set v)" by simp
  finally show ?thesis by (simp add: length_remdups_card_conv)
qed

text \<open>
  The bound on the redirects followed is never what stops \<open>urlopen_follow\<close>: once
  \<open>max_repeats * max_redirections\<close> targets could have been followed, the loop
  detection refuses the next one, and more fuel gives the same exchange.
\<close>

lemma follow_fuel_step:
  "\<forall>u. count_list visited u \<le> max_repeats \<Longrightarrow>
   max_repeats * max_redirections \<le> n + length visited \<Longrightarrow>
   urlopen_follow (Suc n) env visited req = urlopen_follow n env visited req"
proof (induction n arbitrary: visited req)
  case 0
  then have len: "max_repeats * max_redirections \<le> length visited" by simp
  have "max_redirections \<le> length (remdups visited)"
  proof (rule ccontr)
    assume "\<not> max_redirections \<le> length (remdups visited)"
    then have "length (remdups visited) < max_redirections" by simp
    then have "max_repeats * length (remdups visited) < max_repeats * max_redirections"
      by (simp add: max_repeats_def)
    with length_le_repeats [OF "0.prems"(1)] len show False by simp
  qed
  then show ?case
    by (simp split: round_trip.splits option.splits)
next
  case (Suc n)
  show ?case
  proof (cases "env_round_trip env req")
    case (Raises e)
    then show ?thesis by simp
  next
    case (Responds code target body)
    show ?thesis
    proof (cases "\<exists>newurl new. target = Some newurl \<and> \<not> (200 \<le> code \<and> code < 300)
        \<and> redirect_request req code newurl = Some new
        \<and> \<not> (max_repeats \<le> count_list visited newurl
              \<or> max_redirections \<le> length (remdups visited))")
      case True
      then obtain newurl new where t: "target = Some newurl" "\<not> (200 \<le> code \<and> code < 300)"
        "redirect_request req code newurl = Some new"
        "\<not> (max_repeats \<le> count_list visited newurl
            \<or> max_redirections \<le> length (remdups visited))"
        by blast
      have inv: "\<forall>u. count_list (visited @ [newurl]) u \<le> max_repeats"
        using Suc.prems(1) t(4) by (auto simp add: count_list_append)
      have "max_repeats * max_redirections \<le> n + length (visited @ [newurl])"
        using Suc.prems(2) by simp
      from Suc.IH [OF inv this, of new]
      have ih: "urlopen_follow (Suc n) env (visited @ [newurl]) new =
                urlopen_follow n env (visited @ [newurl]) new" .
      have lhs: "urlopen_follow (Suc (Suc n)) env visited req =
                 urlopen_follow (Suc n) env (visited @ [newurl]) new"
        using Responds t by (subst urlopen_follow.simps(2)) (auto simp del: urlopen_follow.simps)
      have rhs: "urlopen_follow (Suc n) env visited req =
                 urlopen_follow n env (visited @ [newurl]) new"
        using Responds t by (subst urlopen_follow.simps(2)) (auto simp del: urlopen_follow.simps)
      show ?thesis by (simp only: lhs rhs ih)
    next
      case False
      with Responds show ?thesis
        by (auto split: option.splits)
    qed
  qed
qed

lemma follow_fuel_enough:
  "urlopen_follow (max_repeats * max_redirections + k) env [] req = final_exchange env req"
proof (induction k)
  case 0
  then show ?case by (simp add: final_exchange_def)
next
  case (Suc k)
  have "urlopen_follow (Suc (max_repeats * max_redirections + k)) env [] req =
        urlopen_follow (max_repeats * max_redirections + k) env [] req"
    by (rule follow_fuel_step) simp_all
  with Suc show ?case by simp
qed

lemma follow_not_redirected:
  "env_round_trip env req = Responds code None body \<Longrightarrow>
   urlopen_follow n env visited req = Responds code None body"
  by (cases n) simp_all

lemma follow_raises:
  "env_round_trip env req = Raises e \<Longrightarrow> urlopen_follow n env visited req = Raises e"
  by (cases n) simp_all

lemma final_not_redirected:
  "env_round_trip env req = Responds code None body \<Longrightarrow>
   final_exchange env req = Responds code None body"
  by (simp add: final_exchange_def follow_not_redirected)

lemma final_raises:
  "env_round_trip env req = Raises e \<Longrightarrow> final_exchange env req = Raises e"
  by (simp add: final_exchange_def follow_raises)

text \<open>A redirect answering a POST is followed by a GET without body or content headers.\<close>

lemma lower_content_type: "lower ''Content-Type'' = ''content-type''"
  by code_simp

lemma redirect_request_post:
  "redirect_request (post_request c path body query timeout) 302 newurl =
     Some \<lparr> req_url = newurl, req_data = None, req_headers = [], req_method = GET,
            req_timeout = timeout \<rparr>"
  by (simp add: redirect_request_def post_request_def lower_content_type)

subsection \<open>The six operations\<close>

lemma failed_round_trip_gives_None:
  assumes "round_trip_fails env req"
  shows "except_Exception_return_None (open_and_load env req) = Inr JNull"
proof (cases "final_exchange env req")
  case (Raises e)
  with assms have "is_Exception e"
    by (simp add: round_trip_fails_def transport_error_def non_2xx_def invalid_json_def)
  with Raises show ?thesis
    by (simp add: except_Exception_return_None_def open_and_load_def urlopen_read_def)
next
  case (Responds code target body)
  show ?thesis
  proof (cases "200 \<le> code \<and> code < 300")
    case True
    with assms Responds have "env_loads env body = None"
      by (simp add: round_trip_fails_def transport_error_def non_2xx_def invalid_json_def)
    with True Responds show ?thesis
      by (simp add: except_Exception_return_None_def open_and_load_def urlopen_read_def
          json_loads_def)
  next
    case False
    with Responds show ?thesis
      by (auto simp add: except_Exception_return_None_def open_and_load_def urlopen_read_def)
  qed
qed

lemma call_sends_one_request: "\<exists>req. fst (call env c op) = [req]"
  by (cases op)
    (simp_all add: get_health_def get_servers_def start_server_def stop_server_def
      refresh_server_def restart_hub_def get'_def post'_def Let_def)

lemma call_outcome:
  "fst (call env c op) = [req] \<Longrightarrow>
   snd (call env c op) = except_Exception_return_None (open_and_load env req)"
  by (cases op)
    (simp_all add: get_health_def get_servers_def start_server_def stop_server_def
      refresh_server_def restart_hub_def get'_def post'_def Let_def)

lemma final_exchange_redirected_once:
  assumes "env_round_trip env req = Responds code (Some newurl) body"
    and "\<not> (200 \<le> code \<and> code < 300)"
    and "redirect_request req code newurl = Some new"
    and "env_round_trip env new = Responds code' None body'"
  shows "final_exchange env req = Responds code' None body'"
proof -
  have fuel: "max_repeats * max_redirections = Suc 39"
    by (simp add: max_repeats_def max_redirections_def)
  have step: "urlopen_follow (Suc n) env [] req = urlopen_follow n env [newurl] new" for n
    using assms(1-3)
    by (subst urlopen_follow.simps(2))
      (auto simp del: urlopen_follow.simps simp add: max_repeats_def max_redirections_def)
  show ?thesis
    by (simp only: final_exchange_def fuel step follow_not_redirected [OF assms(4)])
qed

lemma final_exchange_redirect:
  "final_exchange env_redirect (post_request client0 ''/api/restart'' None [] 10) =
     Responds 200 None ''[1]''"
proof (rule final_exchange_redirected_once)
  show "env_round_trip env_redirect (post_request client0 ''/api/restart'' None [] 10) =
          Responds 302 (Some ''http://127.0.0.1:3000/api/health'') []"
    by (simp add: env_redirect_def post_request_def)
  show "\<not> (200 \<le> (302::nat) \<and> (302::nat) < 300)" by simp
  show "redirect_request (post_request client0 ''/api/restart'' None [] 10) 302
          ''http://127.0.0.1:3000/api/health'' =
        Some \<lparr> req_url = ''http://127.0.0.1:3000/api/health'', req_data = None,
               req_headers = [], req_method = GET, req_timeout = 10 \<rparr>"
    by (rule redirect_request_post)
  show "env_round_trip env_redirect
          \<lparr> req_url = ''http://127.0.0.1:3000/api/health'', req_data = None,
            req_headers = [], req_method = GET, req_timeout = 10 \<rparr> =
        Responds 200 None ''[1]''"
    by (simp add: env_redirect_def)
qed

text \<open>
  C2, as stated, fails: \<open>urlopen\<close> follows a redirect. A hub that answers the POST of
  \<open>restart_hub\<close> with status 302 and the location of a page that yields JSON makes the
  operation return that JSON, not \<open>None\<close>, although the request was answered with a
  status outside 200..299.
\<close>

theorem redirect_returns_json_counterexample:
  "env_round_trip env_redirect (hd (fst (call env_redirect client0 RestartHub))) =
     Responds 302 (Some ''http://127.0.0.1:3000/api/health'') []
   \<and> snd (call env_redirect client0 RestartHub) = Inr (JArr [JNum 1])"
proof -
  let ?req = "post_request client0 ''/api/restart'' None [] 10"
  have first: "env_round_trip env_redirect ?req =
                 Responds 302 (Some ''http://127.0.0.1:3000/api/health'') []"
    by (simp add: env_redirect_def post_request_def)
  have loads: "env_loads env_redirect ''[1]'' = Some (JArr [JNum 1])"
    by (simp add: env_redirect_def)
  have "open_and_load env_redirect ?req = Inr (JArr [JNum 1])"
    by (simp add: open_and_load_def urlopen_read_def final_exchange_redirect json_loads_def
        loads)
  with first show ?thesis
    by (simp add: restart_hub_def post'_def Let_def except_Exception_return_None_def)
qed

text \<open>
  C2, amended. For each of the six operations of the client and every input: when the
  HTTP exchange of its request suffers a transport error, ends (after the redirects
  that \<open>urlopen\<close> follows) with a response whose status is outside 200..299, or ends
  with a body that is not valid JSON, the operation returns \<open>None\<close> and raises
  nothing to its caller.
\<close>

theorem api_call_failure_returns_None:
  assumes "round_trip_fails env (hd (fst (call env c op)))"
  shows "length (fst (call env c op)) = 1 \<and> snd (call env c op) = Inr JNull"
proof -
  obtain req where req: "fst (call env c op) = [req]"
    using call_sends_one_request by blast
  with assms have "round_trip_fails env req" by simp
  then have "except_Exception_return_None (open_and_load env req) = Inr JNull"
    by (rule failed_round_trip_gives_None)
  with req show ?thesis by (simp add: call_outcome)
qed

theorem api_call_failure_returns_None_witness:
  "snd (call env500 client0 (StopServer ''fs'' True)) = Inr JNull
   \<and> snd (call env_refused client0 GetHealth) = Inr JNull
   \<and> snd (call env_html client0 RestartHub) = Inr JNull"
proof -
  have "env_round_trip env500 r = Responds 500 None ''Internal Server Error''" for r
    by (simp add: env500_def)
  then have a: "non_2xx env500 r" for r
    by (simp add: non_2xx_def final_not_redirected)
  have "env_round_trip env_refused r = Raises URLError" for r
    by (simp add: env_refused_def)
  then have b: "transport_error env_refused r" for r
    by (simp add: transport_error_def final_raises)
  have "env_round_trip env_html r = Responds 200 None ''<html></html>''" for r
    by (simp add: env_html_def)
  moreover have "env_loads env_html body = None" for body
    by (simp add: env_html_def)
  ultimately have c: "invalid_json env_html r" for r
    by (simp add: invalid_json_def final_not_redirected)
  show ?thesis
    using api_call_failure_returns_None [of env500 client0 "StopServer ''fs'' True"]
      api_call_failure_returns_None [of env_refused client0 GetHealth]
      api_call_failure_returns_None [of env_html client0 RestartHub]
    by (simp add: round_trip_fails_def a b c)
qed

text \<open>
  The handler is not all there is: a last response with a status in 200..299 and a JSON
  body is returned as parsed, and an exception that is not an \<open>Exception\<close> passes
  through.
\<close>

lemma call_success_returns_json:
  assumes "final_exchange env (hd (fst (call env c op))) = Responds code target body"
    and "200 \<le> code" and "code < 300" and "env_loads env body = Some v"
  shows "snd (call env c op) = Inr v"
proof -
  obtain req where req: "fst (call env c op) = [req]"
    using call_sends_one_request by blast
  with assms have "except_Exception_return_None (open_and_load env req) = Inr v"
    by (simp add: except_Exception_return_None_def open_and_load_def urlopen_read_def
        json_loads_def)
  with req show ?thesis by (simp add: call_outcome)
qed

lemma call_interrupt_propagates:
  assumes "final_exchange env (hd (fst (call env c op))) = Raises KeyboardInterrupt"
  shows "snd (call env c op) = Inl KeyboardInterrupt"
proof -
  obtain req where req: "fst (call env c op) = [req]"
    using call_sends_one_request by blast
  with assms have "except_Exception_return_None (open_and_load env req) = Inl KeyboardInterrupt"
    by (simp add: except_Exception_return_None_def open_and_load_def urlopen_read_def)
  with req show ?thesis by (simp add: call_outcome)
qed

lemma digit_char_simps:
  "digit_char 0 = CHR ''0''" "digit_char 1 = CHR ''1''" "digit_char 2 = CHR ''2''"
  "digit_char 3 = CHR ''3''" "digit_char 4 = CHR ''4''" "digit_char 5 = CHR ''5''"
  "digit_char 6 = CHR ''6''" "digit_char 7 = CHR ''7''" "digit_char 8 = CHR ''8''"
  "digit_char 9 = CHR ''9''" "digit_char (Suc 0) = CHR ''1''"
  by code_simp+

lemma str_int_3000: "str_int 3000 = ''3000''"
  by code_simp

lemma base_url_client0: "base_url client0 = ''http://127.0.0.1:3000''"
  by (simp add: base_url_def client0_def str_int_3000)

text \<open>
  C8, as stated, fails: with \<open>disable\<close> false the request goes to
  \<open>/api/servers/stop\<close> with no query string at all, so it carries no \<open>disable\<close>
  parameter.
\<close>

theorem stop_server_no_query_counterexample:
  "req_url (hd (fst (stop_server env500 client0 ''fs'' False))) =
     ''http://127.0.0.1:3000/api/servers/stop'' \<and>
   CHR ''?'' \<notin> set (req_url (hd (fst (stop_server env500 client0 ''fs'' False))))"
  by (simp add: stop_server_def post'_def post_request_def Let_def base_url_client0)

text \<open>
  C8, amended. For every server name and every \<open>disable\<close>, \<open>stop_server\<close> sends
  exactly one request: a POST to the path \<open>/api/servers/stop\<close>, followed by the query
  string \<open>?disable=true\<close> when \<open>disable\<close> is true and by no query string when it is
  false, with the JSON body \<open>{"server_name": name}\<close>.
\<close>

theorem stop_server_request:
  "fst (stop_server env c name disable) =
     [\<lparr> req_url = base_url c @ ''/api/servers/stop'' @ (if disable then ''?disable=true'' else []),
        req_data = Some (JObj [(''server_name'', JStr name)]),
        req_headers = [(''Content-Type'', ''application/json'')],
        req_method = POST, req_timeout = 10 \<rparr>]"
  by (simp add: stop_server_def post'_def post_request_def Let_def body_or_empty_def)

theorem stop_server_request_witness:
  "map req_url (fst (stop_server env500 client0 ''fs'' True)) =
     [''http://127.0.0.1:3000/api/servers/stop?disable=true'']"
  using stop_server_request [of env500 client0 "''fs''" True]
  by (simp add: base_url_client0)

section \<open>Properties of the log viewer\<close>

lemma redraw_entries_frame:
  "log_entries (redraw_entries clock k es t) = log_entries t \<and>
   show_debug (redraw_entries clock k es t) = show_debug t \<and>
   level_filter (redraw_entries clock k es t) = level_filter t"
  by (induction clock k es t rule: redraw_entries.induct) (simp_all add: write_line_def)

lemma log_entries_redraw: "log_entries (redraw clock t) = log_entries t"
  by (simp add: redraw_def redraw_entries_frame)

lemma log_entries_append_log:
  "log_entries (append_log now level message t) = log_entries t @ [(level, message)]"
  by (simp add: append_log_def Let_def write_line_def)

lemma log_line_not_empty: "log_line ts level message \<noteq> []"
  by (simp add: log_line_def)

lemma passes_filter_iff:
  "passes_filter t level =
     ((level \<noteq> ''DEBUG'' \<or> show_debug t) \<and> (level_filter t = ''ALL'' \<or> level_filter t = level))"
  by (auto simp add: passes_filter_def Let_def)

lemma passes_filter_entries [simp]:
  "passes_filter (t\<lparr>log_entries := es\<rparr>) level = passes_filter t level"
  by (simp add: passes_filter_def)

lemma log_text_append_log:
  "log_text (append_log now level message t) =
     (if passes_filter t level then log_text t @ log_line (strftime_HMS now) level message
      else log_text t)"
  by (simp add: append_log_def Let_def write_line_def)

lemma log_entries_step:
  "log_entries (logs_step clock ev t) = log_entries t
   \<or> (\<exists>level message. log_entries (logs_step clock ev t) = log_entries t @ [(level, message)])
   \<or> log_entries (logs_step clock ev t) = []"
proof (cases ev)
  case (OpenLogFile outcome)
  then show ?thesis by (cases outcome) (simp_all add: log_entries_append_log)
qed (simp_all add: log_entries_append_log log_entries_redraw on_debug_toggle_def
      on_filter_change_def clear_logs_def)

lemma append_started:
  "append_log (10, 0, 0) ''INFO'' ''started'' LogsTab_init =
     \<lparr> show_debug = False, debug_var = False, level_filter = ''ALL'',
       log_entries = [(''INFO'', ''started'')],
       log_text = ''[10:00:00] [INFO] started'' @ [CHR 0x0A] \<rparr>"
  by (simp add: append_log_def LogsTab_init_def passes_filter_def write_line_def log_line_def
      pad2_def digit_char_simps Let_def)

text \<open>
  C6, as stated, fails: an entry stores its level and its message only, and a redraw
  stamps every visible line with the time of the redraw. An entry appended at 10:00:00
  is shown with 10:00:05 once the filter menu is used at 10:00:05.
\<close>

theorem redraw_restamps_counterexample:
  "log_entries (append_log (10, 0, 0) ''INFO'' ''started'' LogsTab_init) = [(''INFO'', ''started'')] \<and>
   log_text (append_log (10, 0, 0) ''INFO'' ''started'' LogsTab_init) =
     ''[10:00:00] [INFO] started'' @ [CHR 0x0A] \<and>
   log_text (logs_step (\<lambda>k. (10, 0, 5)) (FilterChange ''ALL'')
       (append_log (10, 0, 0) ''INFO'' ''started'' LogsTab_init)) =
     ''[10:00:05] [INFO] started'' @ [CHR 0x0A]"
  by (simp add: append_started on_filter_change_def redraw_def passes_filter_def write_line_def
      log_line_def pad2_def digit_char_simps Let_def)

text \<open>
  C6, amended. A log entry consists of a level tag and a free-text message (no time
  stamp is stored with it). Whatever reaches the log viewer, the accumulated sequence of
  entries is left as it is, gets one entry appended, or is cleared entirely. The line
  that \<open>append_log\<close> writes for an entry that passes the filter carries the time read
  at the append.
\<close>

theorem log_entries_append_or_clear:
  "(log_entries (logs_step clock ev t) = log_entries t
    \<or> (\<exists>level message. log_entries (logs_step clock ev t) = log_entries t @ [(level, message)])
    \<or> log_entries (logs_step clock ev t) = [])
   \<and> (passes_filter t level \<longrightarrow>
        log_text (append_log now level message t) =
          log_text t @ log_line (strftime_HMS now) level message)"
  by (simp add: log_entries_step log_text_append_log)

theorem log_entries_append_or_clear_witness:
  "log_text (append_log (10, 0, 0) ''INFO'' ''started'' LogsTab_init) =
     log_line ''10:00:00'' ''INFO'' ''started''"
  using log_entries_append_or_clear [of "\<lambda>k. (10, 0, 0)" ClearLogs LogsTab_init "''INFO''"
      "(10, 0, 0)" "''started''"]
  by (simp add: passes_filter_def LogsTab_init_def pad2_def digit_char_simps)

text \<open>
  C10. \<open>append_log\<close> writes the line of the entry to the text box if and only if the
  level is not DEBUG or the Show DEBUG toggle is on, and the selected filter is ALL or
  equals the level; otherwise the text box is left as it is. So a DEBUG entry stays
  hidden while the toggle is off, also when the filter menu is set to DEBUG.
\<close>

theorem append_log_written_iff:
  "((log_text (append_log now level message t) =
       log_text t @ log_line (strftime_HMS now) level message) =
     ((level \<noteq> ''DEBUG'' \<or> show_debug t) \<and>
      (level_filter t = ''ALL'' \<or> level_filter t = level)))
   \<and> ((log_text (append_log now level message t) = log_text t) =
     (\<not> ((level \<noteq> ''DEBUG'' \<or> show_debug t) \<and>
      (level_filter t = ''ALL'' \<or> level_filter t = level))))"
  by (simp add: log_text_append_log passes_filter_iff log_line_not_empty)

theorem append_log_written_iff_witness:
  "log_text (append_log (10, 0, 0) ''DEBUG'' ''probe''
       (LogsTab_init\<lparr>level_filter := ''DEBUG''\<rparr>)) = []
   \<and> log_text (append_log (10, 0, 0) ''DEBUG'' ''probe''
       (LogsTab_init\<lparr>level_filter := ''DEBUG'', show_debug := True\<rparr>)) =
     log_line ''10:00:00'' ''DEBUG'' ''probe''"
  using append_log_written_iff [of "(10, 0, 0)" "''DEBUG''" "''probe''"
      "LogsTab_init\<lparr>level_filter := ''DEBUG''\<rparr>"]
    append_log_written_iff [of "(10, 0, 0)" "''DEBUG''" "''probe''"
      "LogsTab_init\<lparr>level_filter := ''DEBUG'', show_debug := True\<rparr>"]
  by (simp add: LogsTab_init_def pad2_def digit_char_simps)

section \<open>Properties of the server cards\<close>

lemma map_of_dict_set: "map_of (dict_set k v d) = (map_of d)(k \<mapsto> v)"
  by (induction d) (auto simp: fun_eq_iff)

lemma keys_dict_set_present:
  "k \<in> fst ` set d \<Longrightarrow> map fst (dict_set k v d) = map fst d"
  by (induction d) force+

lemma keys_dict_set: "fst ` set (dict_set k v d) = insert k (fst ` set d)"
  by (simp add: dom_map_of_conv_image_fst [symmetric] map_of_dict_set)

lemma ids_dict_set_present:
  "map_of d k = Some c \<Longrightarrow> card_id v = card_id c \<Longrightarrow>
   map (\<lambda>p. card_id (snd p)) (dict_set k v d) = map (\<lambda>p. card_id (snd p)) d"
  by (induction d) (auto split: if_splits)

lemma build_frame:
  "card_id (build data c) = card_id c" "server_name (build data c) = server_name c"
  "card_data (build data c) = card_data c"
  "expanded (tools_list (build data c)) = False"
  by (simp_all add: build_def Let_def ToolsList_init_def)

lemma update_data_frame:
  "card_id (update_data data c) = card_id c" "server_name (update_data data c) = server_name c"
  "card_data (update_data data c) = data"
  "expanded (tools_list (update_data data c)) = False"
  by (simp_all add: update_data_def build_frame)

lemma add_or_update_keys:
  "fst ` set (cards (fst (add_or_update rs (t, ops)))) = fst ` set (cards t) \<union> set (map sd_name rs)"
proof (induction rs arbitrary: t ops)
  case Nil
  then show ?case by simp
next
  case (Cons r rs)
  show ?case
    by (cases "map_of (cards t) (sd_name r)") (auto simp add: Let_def Cons.IH keys_dict_set)
qed

lemma add_or_update_present:
  "set (map sd_name rs) \<subseteq> fst ` set (cards t) \<Longrightarrow>
   (\<exists>us. snd (add_or_update rs (t, ops)) = ops @ us \<and> list_all is_update us) \<and>
   map fst (cards (fst (add_or_update rs (t, ops)))) = map fst (cards t) \<and>
   map (\<lambda>p. card_id (snd p)) (cards (fst (add_or_update rs (t, ops)))) =
     map (\<lambda>p. card_id (snd p)) (cards t) \<and>
   next_widget (fst (add_or_update rs (t, ops))) = next_widget t"
proof (induction rs arbitrary: t ops)
  case Nil
  then show ?case by simp
next
  case (Cons r rs)
  from Cons.prems have "sd_name r \<in> fst ` set (cards t)" by simp
  then obtain c where c: "map_of (cards t) (sd_name r) = Some c"
    by (metis domD dom_map_of_conv_image_fst)
  let ?t = "t\<lparr>cards := dict_set (sd_name r) (update_data r c) (cards t)\<rparr>"
  have keys: "map fst (cards ?t) = map fst (cards t)"
    using Cons.prems by (simp add: keys_dict_set_present)
  have ids: "map (\<lambda>p. card_id (snd p)) (cards ?t) = map (\<lambda>p. card_id (snd p)) (cards t)"
    using c by (simp add: ids_dict_set_present update_data_frame)
  have "set (map sd_name rs) \<subseteq> fst ` set (cards ?t)"
    using Cons.prems by (auto simp add: keys_dict_set)
  from Cons.IH [OF this, of "ops @ [UpdateCard (sd_name r) (card_id c)]"] keys ids c
  show ?case by (auto simp add: Let_def)
qed






lemma refresh_keys: "fst ` set (cards (fst (refresh rs t))) = set (map sd_name rs)"
  by (auto simp add: refresh_def Let_def add_or_update_keys)




lemma filter_keys_all: "fst ` set d \<subseteq> S \<Longrightarrow> filter (\<lambda>(k, c). k \<in> S) d = d"
  by (induction d) auto

lemma filter_keys_none: "fst ` set d \<subseteq> S \<Longrightarrow> filter (\<lambda>(k, c). k \<notin> S) d = []"
  by (induction d) auto

lemma refresh_twice:
  "list_all is_update (snd (refresh rs (fst (refresh rs t)))) \<and>
   map fst (cards (fst (refresh rs (fst (refresh rs t))))) = map fst (cards (fst (refresh rs t))) \<and>
   map (\<lambda>p. card_id (snd p)) (cards (fst (refresh rs (fst (refresh rs t))))) =
     map (\<lambda>p. card_id (snd p)) (cards (fst (refresh rs t)))"
proof (cases "rs = []")
  case True
  then show ?thesis by (simp add: refresh_def Let_def)
next
  case False
  let ?t = "fst (refresh rs t)"
  have keys: "fst ` set (cards ?t) = set (map sd_name rs)" by (rule refresh_keys)
  let ?t1 = "?t\<lparr>empty_label_mapped := False\<rparr>"
  have sub: "set (map sd_name rs) \<subseteq> fst ` set (cards ?t1)" using keys by simp
  have r2: "refresh rs ?t = add_or_update rs (?t1, [])"
    using False keys by (simp add: refresh_def Let_def filter_keys_all filter_keys_none)
  from add_or_update_present [OF sub, of "[]"] r2
  show ?thesis by auto
qed

lemma tab_fs_expanded_cards:
  "map (\<lambda>(k, c). (k, card_id c, expanded (tools_list c))) (cards tab_fs_expanded) =
     [(Some ''fs'', 0, True), (Some ''gh'', 1, False)]"
  by (simp add: tab_fs_expanded_def refresh_def Let_def ServersTab_init_def fs_data_def
      gh_data_def toggle_tools_def toggle_def ServerCard_init_def build_def ToolsList_init_def
      get_or_def)




text \<open>
  C5. For every roster and every displayed set of cards, a second \<open>refresh\<close> with the
  same roster creates no card and destroys no card: it only updates, and the cards are
  the same widgets under the same names in the same order.
\<close>

theorem refresh_idempotent:
  "(\<forall>k i. CreateCard k i \<notin> set (snd (refresh rs (fst (refresh rs t)))) \<and>
          DestroyCard k i \<notin> set (snd (refresh rs (fst (refresh rs t)))))
   \<and> map fst (cards (fst (refresh rs (fst (refresh rs t))))) = map fst (cards (fst (refresh rs t)))
   \<and> map (\<lambda>p. card_id (snd p)) (cards (fst (refresh rs (fst (refresh rs t))))) =
       map (\<lambda>p. card_id (snd p)) (cards (fst (refresh rs t)))"
proof -
  have "\<forall>x \<in> set (snd (refresh rs (fst (refresh rs t)))). is_update x"
    using refresh_twice [of rs t] by (simp add: list_all_iff)
  then have "\<forall>k i. CreateCard k i \<notin> set (snd (refresh rs (fst (refresh rs t)))) \<and>
          DestroyCard k i \<notin> set (snd (refresh rs (fst (refresh rs t))))"
    by fastforce
  then show ?thesis using refresh_twice [of rs t] by blast
qed

theorem refresh_idempotent_witness:
  "snd (refresh [fs_data, gh_data] ServersTab_init) =
     [CreateCard (Some ''fs'') 0, CreateCard (Some ''gh'') 1]
   \<and> snd (refresh [fs_data, gh_data] (fst (refresh [fs_data, gh_data] ServersTab_init))) =
     [UpdateCard (Some ''fs'') 0, UpdateCard (Some ''gh'') 1]"
  using refresh_idempotent [of "[fs_data, gh_data]" ServersTab_init]
  by (simp add: refresh_def Let_def ServersTab_init_def fs_data_def gh_data_def
      ServerCard_init_def build_def update_data_def ToolsList_init_def get_or_def)

section \<open>Properties of the main window\<close>

subsection \<open>The port\<close>

lemma digit_val_digit_char: "d < 10 \<Longrightarrow> digit_val (digit_char d) = Some d"
  by (simp add: digit_val_def digit_char_def)

lemma digit_val_signs:
  "digit_val CHR ''-'' = None" "digit_val CHR ''+'' = None" "digit_val CHR ''_'' = None"
  by (simp_all add: digit_val_def)

lemma digit_not_space: "digit_val c \<noteq> None \<Longrightarrow> \<not> isspace c"
  by (auto simp add: digit_val_def isspace_def Let_def split: if_splits)

lemma digits_value_digits:
  "\<forall>c \<in> set s. digit_val c \<noteq> None \<Longrightarrow>
   digits_value acc s = Some (foldl (\<lambda>a c. 10 * a + the (digit_val c)) acc s)"
proof (induction acc s rule: digits_value.induct)
  case (1 acc)
  then show ?case by simp
next
  case (2 acc c)
  then show ?case by auto
next
  case (3 acc c d ds)
  from "3.prems" obtain x where dv: "digit_val c = Some x" by auto
  then have ne: "c \<noteq> CHR ''_''" using digit_val_signs by auto
  from "3.prems" have rest: "\<forall>c \<in> set (d # ds). digit_val c \<noteq> None" by simp
  have "digits_value (10 * acc + x) (d # ds) =
          Some (foldl (\<lambda>a c. 10 * a + the (digit_val c)) (10 * acc + x) (d # ds))"
    using "3.IH"(2) [OF ne dv rest] .
  then show ?case using ne dv by simp
qed

lemma str_nat_digits: "\<forall>c \<in> set (str_nat n). digit_val c \<noteq> None"
proof (induction n rule: str_nat.induct)
  case (1 n)
  show ?case
  proof (cases "n < 10")
    case True
    then show ?thesis by (subst str_nat.simps) (simp add: digit_val_digit_char)
  next
    case False
    have "n mod 10 < 10" by simp
    then have "digit_val (digit_char (n mod 10)) \<noteq> None"
      by (simp only: digit_val_digit_char) simp
    with 1 False show ?thesis
      by (subst str_nat.simps) simp
  qed
qed

lemma str_nat_not_empty: "str_nat n \<noteq> []"
  by (subst str_nat.simps) simp

lemma foldl_str_nat: "foldl (\<lambda>a c. 10 * a + the (digit_val c)) 0 (str_nat n) = n"
proof (induction n rule: str_nat.induct)
  case (1 n)
  show ?case
  proof (cases "n < 10")
    case True
    then show ?thesis by (subst str_nat.simps) (simp add: digit_val_digit_char)
  next
    case False
    have "n mod 10 < 10" by simp
    then have "digit_val (digit_char (n mod 10)) = Some (n mod 10)"
      by (simp only: digit_val_digit_char)
    with 1 False show ?thesis
      by (subst str_nat.simps) simp
  qed
qed

lemma length_str_nat: "0 < k \<Longrightarrow> n < 10 ^ k \<Longrightarrow> length (str_nat n) \<le> k"
proof (induction k arbitrary: n)
  case 0
  then show ?case by simp
next
  case (Suc k)
  show ?case
  proof (cases "n < 10")
    case True
    then show ?thesis by (subst str_nat.simps) simp
  next
    case False
    with Suc.prems have k: "0 < k" by (cases k) auto
    from Suc.prems have "n div 10 < 10 ^ k" by (simp add: less_mult_imp_div_less mult.commute)
    from Suc.IH [OF k this] False show ?thesis by (subst str_nat.simps) simp
  qed
qed

lemma strip_digits: "\<forall>c \<in> set s. digit_val c \<noteq> None \<Longrightarrow> strip s = s"
proof (cases s rule: rev_cases)
  case Nil
  then show ?thesis by (simp add: strip_def)
next
  case (snoc ys y)
  assume d: "\<forall>c \<in> set s. digit_val c \<noteq> None"
  from d snoc have y: "\<not> isspace y" by (simp add: digit_not_space)
  have "dropWhile isspace s = s" using d by (cases s) (simp_all add: digit_not_space)
  then show ?thesis using snoc y by (simp add: strip_def)
qed

lemma py_int_str_nat:
  assumes "length (str_nat n) \<le> int_max_str_digits"
  shows "py_int (str_nat n) = Some (int n)"
proof -
  let ?s = "str_nat n"
  have d: "\<forall>c \<in> set ?s. digit_val c \<noteq> None" by (rule str_nat_digits)
  obtain c cs where s: "?s = c # cs" using str_nat_not_empty [of n] by (cases ?s) auto
  with d obtain x where x: "digit_val c = Some x" by auto
  from d s have dcs: "\<forall>c \<in> set cs. digit_val c \<noteq> None" by simp
  have sign: "c \<noteq> CHR ''-''" "c \<noteq> CHR ''+''" using x digit_val_signs by auto
  have "filter (\<lambda>c. digit_val c \<noteq> None) ?s = ?s"
    using d by (simp add: filter_id_conv)
  with assms have lim: "\<not> length (filter (\<lambda>c. digit_val c \<noteq> None) ?s) > int_max_str_digits"
    by simp
  have "unsigned_value ?s = Some (foldl (\<lambda>a c. 10 * a + the (digit_val c)) 0 ?s)"
    using s x digits_value_digits [OF dcs, of x]
    by (simp add: unsigned_value_def)
  then have u: "unsigned_value ?s = Some n" by (simp add: foldl_str_nat)
  have st: "strip ?s = ?s" using strip_digits [OF d] .
  show ?thesis
    unfolding py_int_def Let_def st using lim u sign s by simp
qed

text \<open>A port typed in decimal is the port read; whatever is typed, the port read is a port.\<close>

lemma read_port_decimal:
  assumes "1 \<le> n" and "n \<le> 65535"
  shows "read_port (str_int n) = n"
proof -
  have "nat n < 10 ^ 5" using assms by simp
  then have "length (str_nat (nat n)) \<le> 5" by (intro length_str_nat) simp_all
  then have "length (str_nat (nat n)) \<le> int_max_str_digits"
    by (simp add: int_max_str_digits_def)
  then have "py_int (str_nat (nat n)) = Some (int (nat n))" by (rule py_int_str_nat)
  then show ?thesis
    using assms strip_digits [OF str_nat_digits, of "nat n"] by (simp add: read_port_def str_int_def)
qed

lemma read_port_range: "1 \<le> read_port s \<and> read_port s \<le> 65535"
  by (simp add: read_port_def DEFAULT_PORT_def split: option.splits)

lemma py_int_examples:
  "py_int (strip '' 8080 '') = Some 8080" "py_int (strip ''abc'') = None"
  "py_int (strip []) = None" "py_int (strip ''70000'') = Some 70000"
  "py_int (strip ''0'') = Some 0"
  by (simp_all add: py_int_def strip_def isspace_def digit_val_def unsigned_value_def
      int_max_str_digits_def Let_def)

text \<open>
  C9. For every text of the port entry, the port that \<open>_start_hub\<close> stores, gives to
  the client and puts on the command line of the hub is the entered value when the
  stripped text parses as an integer between 1 and 65535, and the default port 3000
  otherwise.
\<close>

theorem start_hub_port:
  "app_port (fst (start_hub now a)) =
     (case py_int (strip (port_entry a)) of
        Some v \<Rightarrow> if 1 \<le> v \<and> v \<le> 65535 then v else 3000
      | None \<Rightarrow> 3000)
   \<and> port (client (fst (start_hub now a))) = app_port (fst (start_hub now a))
   \<and> hub_command cli (fst (start_hub now a)) ! 3 = str_int (app_port (fst (start_hub now a)))"
  by (simp add: start_hub_def Let_def read_port_def DEFAULT_PORT_def hub_command_def
      split: option.splits)

theorem start_hub_port_witness:
  "app_port (fst (start_hub (10, 0, 0) (app0\<lparr>port_entry := '' 8080 ''\<rparr>))) = 8080
   \<and> app_port (fst (start_hub (10, 0, 0) (app0\<lparr>port_entry := ''abc''\<rparr>))) = 3000
   \<and> app_port (fst (start_hub (10, 0, 0) (app0\<lparr>port_entry := []\<rparr>))) = 3000
   \<and> app_port (fst (start_hub (10, 0, 0) (app0\<lparr>port_entry := ''70000''\<rparr>))) = 3000
   \<and> app_port (fst (start_hub (10, 0, 0) (app0\<lparr>port_entry := ''0''\<rparr>))) = 3000"
  using start_hub_port [of "(10, 0, 0)" "app0\<lparr>port_entry := '' 8080 ''\<rparr>"]
    start_hub_port [of "(10, 0, 0)" "app0\<lparr>port_entry := ''abc''\<rparr>"]
    start_hub_port [of "(10, 0, 0)" "app0\<lparr>port_entry := []\<rparr>"]
    start_hub_port [of "(10, 0, 0)" "app0\<lparr>port_entry := ''70000''\<rparr>"]
    start_hub_port [of "(10, 0, 0)" "app0\<lparr>port_entry := ''0''\<rparr>"]
  by (simp add: py_int_examples)

subsection \<open>Polling\<close>

text \<open>
  C7. On every tick, \<open>_poll_health\<close> starts the thread that sends the health request
  if and only if the running flag is set; the handle of the process plays no part; and
  whatever the flag is, it schedules exactly one next tick, 3000 milliseconds later.
  The thread sends one GET request, to \<open>/api/health\<close>.
\<close>

theorem poll_health_tick:
  "(StartThread Fetch \<in> set (poll_health a)) = hub_running a
   \<and> filter (\<lambda>e. e \<noteq> StartThread Fetch) (poll_health a) = [After 3000 PollHealth]
   \<and> poll_health (a\<lparr>hub_process := h\<rparr>) = poll_health a
   \<and> fst (fetch env a) = [get_request (client a) ''/api/health'' 5]"
  by (simp add: poll_health_def fetch_def get_health_def get'_def Let_def split: sum.splits)

theorem poll_health_tick_witness:
  "poll_health app0 = [After 3000 PollHealth]
   \<and> poll_health (app0\<lparr>hub_running := True\<rparr>) = [StartThread Fetch, After 3000 PollHealth]"
  using poll_health_tick [of app0] poll_health_tick [of "app0\<lparr>hub_running := True\<rparr>"]
  by (simp add: poll_health_def app0_def MCPHubApp_init_def)

subsection \<open>Stopping\<close>

text \<open>
  When \<open>kill()\<close> does not raise, \<open>_stop_hub\<close> ends with the handle cleared and the
  flag false, whether \<open>terminate()\<close> raised, \<open>wait\<close> timed out, or both returned.
\<close>

lemma stop_hub_clears_handle:
  assumes "kill_raises pb = None"
    and "\<forall>e. terminate_raises pb = Some e \<longrightarrow> is_Exception e"
    and "\<forall>e. wait_raises pb = Some e \<longrightarrow> is_Exception e"
  shows "hub_process (fst (stop_hub now pb a)) = None \<and>
         \<not> hub_running (fst (stop_hub now pb a)) \<and>
         snd (snd (stop_hub now pb a)) = None"
  using assms
  by (auto simp add: stop_hub_def stop_finish_def terminate_and_wait_def Let_def
      split: option.splits)

lemma stop_hub_escalates_to_kill:
  "stop_hub now \<lparr> terminate_raises = None, wait_raises = Some TimeoutExpired, kill_raises = None \<rparr>
     (a\<lparr>hub_process := Some h\<rparr>) =
   (stop_finish (a\<lparr>hub_process := None,
      logs_tab := append_log now ''INFO'' ''Stopping MCP Hub...'' (logs_tab a)\<rparr>),
    [Terminate h, Wait h 5, Kill h], None)"
  by (simp add: stop_hub_def terminate_and_wait_def stop_finish_def Let_def)

text \<open>\<open>destroy\<close> guards \<open>kill()\<close> with a handler of its own: the same failure is swallowed.\<close>

lemma destroy_swallows_kill_failure:
  "destroy pb_signal_fails (a\<lparr>hub_process := Some h\<rparr>) = ([Terminate h, Kill h], None)"
  by (simp add: destroy_def terminate_and_wait_def pb_signal_fails_def)

text \<open>
  C3 says that every stop request issued while a handle exists ends with the handle
  cleared and the running flag false, also when signalling fails. The code at a process
  for which \<open>terminate()\<close> and \<open>kill()\<close> both raise: \<open>kill()\<close> is called
  in the handler, its exception leaves \<open>_stop_hub\<close>, and the window still holds the
  handle with the running flag set.
\<close>

theorem stop_hub_kill_raises:
  "(case stop_hub (10, 0, 0) pb_signal_fails (app0\<lparr>hub_process := Some 0, hub_running := True\<rparr>) of
      (a', calls, exc) \<Rightarrow> (hub_process a', hub_running a', calls, exc)) =
   (Some 0, True, [Terminate 0, Kill 0], Some OSError)"
  by (simp add: stop_hub_def terminate_and_wait_def pb_signal_fails_def Let_def)

subsection \<open>The life cycle\<close>

text \<open>
  With the running flag set, the toggle takes the stop branch: it starts no thread, so
  no process is spawned by that click.
\<close>

lemma toggle_hub_running_starts_nothing:
  "hub_running a \<Longrightarrow> fst (snd (toggle_hub now pb a)) = []"
  by (simp add: toggle_hub_def split: prod.splits)

lemma click_running_starts_nothing:
  "hub_running (window s) \<Longrightarrow>
   workers (click now pb s) = workers s \<and> next_pid (click now pb s) = next_pid s"
  by (simp add: click_def toggle_hub_def split: prod.splits)

text \<open>
  C1 says that for every sequence of start and stop actions of the toolbar toggle at
  most one hub process handle exists at any instant. The code along \<open>race_trace\<close>:
  every click goes through \<open>_toggle_hub\<close>, and at the end the processes 1 and 2 are
  both alive; the window holds the handle of process 2 only.
\<close>

theorem toggle_double_spawn:
  "map_option (\<lambda>s. (live s, hub_process (window s), hub_running (window s)))
     (run_events race_trace (hub_system_init ''mcp-servers.json'')) =
   Some ([1, 2], Some 2, True)"
  by (simp add: race_trace_def hub_system_init_def MCPHubApp_init_def click_def toggle_hub_def
      start_hub_def stop_hub_def stop_finish_def terminate_and_wait_def process_stopped_def
      worker_popen_def worker_eof_def worker_wait_def run_spawned_def run_except_def
      run_exited_def Let_def pb_ok_def)

end
